theory Spec2Isabelle
  imports Complex_Main
begin

section \<open>The analysis script \<open>scripts/analyze_dgdl.py\<close>\<close>

text \<open>
  Python floats are modelled as \<open>real\<close>, Python ints as \<open>int\<close>, strings as \<open>string\<close>.
  Every \<open>raise\<close> and every \<open>exit\<close> of the script is a value \<open>Inl e\<close> of the result.
\<close>

datatype py_error =
    IndexError
  | ZeroDivisionError
  | SystemExit string
  | Raised string

definition bind_err :: "'e + 'a \<Rightarrow> ('a \<Rightarrow> 'e + 'b) \<Rightarrow> 'e + 'b" where
  "bind_err r f = (case r of Inl e \<Rightarrow> Inl e | Inr v \<Rightarrow> f v)"

subsection \<open>Constants\<close>

definition kb :: real where
  "kb = 0.00831447215"

subsection \<open>Strings: \<open>str.lower\<close> on ASCII letters\<close>

definition lower_char :: "char \<Rightarrow> char" where
  "lower_char c =
     (case map_of (zip ''ABCDEFGHIJKLMNOPQRSTUVWXYZ'' ''abcdefghijklmnopqrstuvwxyz'') c of
        Some d \<Rightarrow> d
      | None \<Rightarrow> c)"

definition lower :: "string \<Rightarrow> string" where
  "lower s = map lower_char s"

subsection \<open>Selection of the input files by index (lines 375-387 of \<open>main\<close>)\<close>

text \<open>
  \<open>xs[i]\<close> of Python: a negative index counts from the end, an index outside
  \<open>-len(xs) .. len(xs)-1\<close> raises IndexError.
\<close>

definition getitem :: "'a list \<Rightarrow> int \<Rightarrow> py_error + 'a" where
  "getitem xs i =
     (if 0 \<le> i \<and> i < int (length xs) then Inr (xs ! nat i)
      else if - int (length xs) \<le> i \<and> i < 0 then Inr (xs ! nat (int (length xs) + i))
      else Inl IndexError)"

text \<open>
  The comprehension \<open>[files[i] for i in index if i < len(files)]\<close>: the indices are
  visited in the order given, the first failing subscript aborts the comprehension.
\<close>

fun select_files :: "'a list \<Rightarrow> int list \<Rightarrow> py_error + 'a list" where
  "select_files files [] = Inr []"
| "select_files files (i # rest) =
     (if i < int (length files)
      then bind_err (getitem files i)
             (\<lambda>f. bind_err (select_files files rest) (\<lambda>fs. Inr (f # fs)))
      else select_files files rest)"

text \<open>
  The test of the warning, \<open>any(i > (len(files) - 1) for i in index)\<close>. The script
  evaluates it after \<open>files\<close> has been rebound to the selected list, so \<open>files\<close> here
  is the selection, not the list the indices were applied to.
\<close>

definition index_warning :: "'a list \<Rightarrow> int list \<Rightarrow> bool" where
  "index_warning files index = list_ex (\<lambda>i. i > int (length files) - 1) index"

datatype direction = Forward | Reverse

record 'a file_selection =
  filesAB :: "'a list"
  filesBA :: "'a list"
  warnings :: "direction list"

definition select_by_index ::
  "'a list \<Rightarrow> 'a list \<Rightarrow> int list option \<Rightarrow> py_error + 'a file_selection" where
  "select_by_index fAB fBA index =
     (case index of
        None \<Rightarrow> Inr \<lparr>filesAB = fAB, filesBA = fBA, warnings = []\<rparr>
      | Some idx \<Rightarrow>
          bind_err (select_files fAB idx) (\<lambda>selAB.
          bind_err (select_files fBA idx) (\<lambda>selBA.
            Inr \<lparr>filesAB = selAB, filesBA = selBA,
                 warnings = (if index_warning selAB idx then [Forward] else []) @
                            (if index_warning selBA idx then [Reverse] else [])\<rparr>)))"

subsection \<open>Selection of the output units (lines 328-340 of \<open>main\<close>)\<close>

text \<open>
  The result is the pair \<open>(unit_fact, units)\<close>. The float division \<open>1./(kb*T)\<close> raises
  ZeroDivisionError when \<open>kb*T\<close> is zero.
\<close>

definition select_units :: "string \<Rightarrow> real \<Rightarrow> py_error + (real \<times> string)" where
  "select_units units T =
     (if lower units = ''kj'' then Inr (1, ''kJ/mol'')
      else if units = ''kcal'' then Inr (1 / 4.184, ''kcal/mol'')
      else if lower units = ''kt'' then
        (if kb * T = 0 then Inl ZeroDivisionError else Inr (1 / (kb * T), ''kT''))
      else Inl (SystemExit (''No unit type '' @ [CHR 0x27] @ units @ [CHR 0x27] @
                            '' available'')))"

subsection \<open>The estimator objects \<open>main\<close> reads\<close>

text \<open>
  The classes \<open>Crooks\<close>, \<open>BAR\<close> and \<open>Jarz\<close> and the function \<open>ks_norm_test\<close> are imported
  from \<open>pmx.estimators\<close>. \<open>main\<close> only calls them and reads attributes of the objects
  they return, so they are parameters of the model: each record below has the
  attributes \<open>main\<close> reads, and a call may raise. \<open>main\<close> reads the bootstrap errors
  only when \<open>nboots > 0\<close> and the block errors only when \<open>nblocks > 1\<close>; the records
  give these attributes a value in any case.
\<close>

record crooks =
  mf :: real
  devf :: real
  mr :: real
  devr :: real
  inters_bool :: bool
  dg :: real
  err_boot1 :: real
  err_boot2 :: real
  err_blocks :: real

record bar =
  dg :: real
  err :: real
  err_boot :: real
  err_blocks :: real
  conv :: real
  conv_err_boot :: real

record jarz =
  dg_for :: real
  dg_rev :: real
  dg_mean :: real
  err_boot_for :: real
  err_boot_rev :: real
  err_blocks_for :: real
  err_blocks_rev :: real

record estimators =
  Crooks :: "real list \<Rightarrow> real list \<Rightarrow> int \<Rightarrow> int \<Rightarrow> py_error + crooks"
  BAR :: "real list \<Rightarrow> real list \<Rightarrow> real \<Rightarrow> int \<Rightarrow> int \<Rightarrow> py_error + bar"
  Jarz :: "real list \<Rightarrow> real list \<Rightarrow> real \<Rightarrow> int \<Rightarrow> int \<Rightarrow> py_error + jarz"
  ks_norm_test :: "real list \<Rightarrow> py_error + (real \<times> real \<times> real \<times> bool)"

subsection \<open>Command line options and outputs\<close>

text \<open>The options of \<open>parse_options\<close> that the analysis part of \<open>main\<close> uses.\<close>

record args =
  methods :: "string list"
  temperature :: real
  nboots :: int
  nblocks :: int
  units :: string
  integ_only :: bool
  pickle :: bool
  do_ks_test :: bool
  cgi_plot :: "string option"
  nbins :: int
  dpi :: int

text \<open>
  A line written by \<open>_tee\<close> to the result file and the screen. A line carries its
  message (without the leading blanks and line feeds of the format string) and the
  numbers the format string is filled with; the rendering of a number with
  \<open>--prec\<close> decimals is not modelled, and the ruled separator lines are left out.
  \<^item> \<open>Text m\<close>: a fixed message;
  \<^item> \<open>Count m n\<close>: a message with a \<open>%d\<close> count;
  \<^item> \<open>Number m x\<close>: a message with one number that is not an energy;
  \<^item> \<open>Energy m x u\<close>: \<open>m = x u\<close>, a number followed by the unit string;
  \<^item> \<open>Gauss m x s u\<close>: \<open>m mean = x u std = s u\<close>;
  \<^item> \<open>KSFailed x y\<close>: the message of a failed Kolmogorov-Smirnov test.
\<close>

datatype line =
    Text string
  | Count string nat
  | Number string real
  | Energy string real string
  | Gauss string real real string
  | KSFailed real real

text \<open>The objects written by \<open>pickle.dump\<close> and the call of \<open>make_cgi_plot\<close>.\<close>

datatype pickled =
    CgiPickle crooks
  | BarPickle bar
  | JarzPickle jarz

record plot_call =
  plot_file :: string
  plot_wf :: "real list"
  plot_wr :: "real list"
  plot_dg :: real
  plot_err :: real
  plot_nbins :: int
  plot_dpi :: int

record run_output =
  report :: "line list"
  pickles :: "pickled list"
  plot :: "plot_call option"

subsection \<open>The analysis part of \<open>main\<close> (lines 430-565)\<close>

definition header_lines :: "real list \<Rightarrow> real list \<Rightarrow> real \<Rightarrow> line list" where
  "header_lines res_ab res_ba T =
     [Text ''ANALYSIS'',
      Count ''Number of forward (0->1) trajectories:'' (length res_ab),
      Count ''Number of reverse (1->0) trajectories:'' (length res_ba),
      Number ''Temperature (K) :'' T]"

text \<open>Lines 444-477: the report of the Crooks Gaussian Intersection.\<close>

definition cgi_lines :: "crooks \<Rightarrow> real \<Rightarrow> string \<Rightarrow> int \<Rightarrow> int \<Rightarrow> line list" where
  "cgi_lines cgi unit_fact u boots blocks =
     [Text ''Crooks Gaussian Intersection'',
      Gauss ''CGI: Forward Gauss'' (mf cgi * unit_fact) (devf cgi * unit_fact) u,
      Gauss ''CGI: Reverse Gauss'' (mr cgi * unit_fact) (devr cgi * unit_fact) u] @
     (if \<not> inters_bool cgi
      then [Text ''Gaussians too close for intersection calculation'',
            Text ''--> Taking difference of mean values'']
      else []) @
     [Energy ''CGI: dG'' (crooks.dg cgi * unit_fact) u,
      Energy ''CGI: Std Err (bootstrap:parametric)'' (err_boot1 cgi * unit_fact) u] @
     (if boots > 0
      then [Energy ''CGI: Std Err (bootstrap)'' (err_boot2 cgi * unit_fact) u] else []) @
     (if blocks > 1
      then [Energy ''CGI: Std Err (blocks)'' (crooks.err_blocks cgi * unit_fact) u] else [])"

text \<open>
  Lines 484-498: the report of the Kolmogorov-Smirnov test of one direction. The
  failure message is filled with \<open>(q, check)\<close>, as the script does.
\<close>

definition ks_lines :: "string \<Rightarrow> real \<times> real \<times> real \<times> bool \<Rightarrow> line list" where
  "ks_lines m k =
     (case k of (q, lam, check, bOk) \<Rightarrow>
        [Number m q, (if bOk then Text ''---> KS-Test Ok'' else KSFailed q check)])"

text \<open>Lines 504-525: the report of the Bennett Acceptance Ratio.\<close>

definition bar_lines :: "bar \<Rightarrow> real \<Rightarrow> string \<Rightarrow> int \<Rightarrow> int \<Rightarrow> line list" where
  "bar_lines b unit_fact u boots blocks =
     [Text ''Bennett Acceptance Ratio'',
      Energy ''BAR: dG'' (bar.dg b * unit_fact) u,
      Energy ''BAR: Std Err (analytical)'' (err b * unit_fact) u] @
     (if boots > 0
      then [Energy ''BAR: Std Err (bootstrap)'' (err_boot b * unit_fact) u] else []) @
     (if blocks > 1
      then [Energy ''BAR: Std Err (blocks)'' (bar.err_blocks b * unit_fact) u] else []) @
     [Number ''BAR: Conv'' (conv b)] @
     (if boots > 0
      then [Number ''BAR: Conv Std Err (bootstrap)'' (conv_err_boot b)] else [])"

text \<open>Lines 531-555: the report of the Jarzynski estimator.\<close>

definition jarz_lines :: "jarz \<Rightarrow> real \<Rightarrow> string \<Rightarrow> int \<Rightarrow> int \<Rightarrow> line list" where
  "jarz_lines j unit_fact u boots blocks =
     [Text ''Jarzynski estimator'',
      Energy ''JARZ: dG Forward'' (dg_for j * unit_fact) u,
      Energy ''JARZ: dG Reverse'' (dg_rev j * unit_fact) u,
      Energy ''JARZ: dG Mean'' (dg_mean j * unit_fact) u] @
     (if boots > 0
      then [Energy ''JARZ: Std Err Forward (bootstrap)'' (err_boot_for j * unit_fact) u,
            Energy ''JARZ: Std Err Reverse (bootstrap)'' (err_boot_rev j * unit_fact) u]
      else []) @
     (if blocks > 1
      then [Energy ''JARZ: Std Err Forward (blocks)'' (err_blocks_for j * unit_fact) u,
            Energy ''JARZ: Std Err Reverse (blocks)'' (err_blocks_rev j * unit_fact) u]
      else [])"

text \<open>
  An estimator is run when its name is among \<open>args.methods\<close>: the three tests
  \<open>'cgi' in methods\<close>, \<open>'bar' in methods\<close>, \<open>'jarz' in methods\<close>.
\<close>

definition run_if :: "bool \<Rightarrow> py_error + 'a \<Rightarrow> py_error + 'a option" where
  "run_if b r = (if b then bind_err r (\<lambda>v. Inr (Some v)) else Inr None)"

definition opt_list :: "'a option \<Rightarrow> ('a \<Rightarrow> 'b list) \<Rightarrow> 'b list" where
  "opt_list x f = (case x of None \<Rightarrow> [] | Some v \<Rightarrow> f v)"

text \<open>Lines 482-498: the normality test of both directions, unless \<open>--no_ks\<close> is given.\<close>

definition ks_section ::
  "estimators \<Rightarrow> bool \<Rightarrow> real list \<Rightarrow> real list \<Rightarrow> py_error + line list" where
  "ks_section est do_ks res_ab res_ba =
     (if do_ks
      then bind_err (ks_norm_test est res_ab) (\<lambda>k0.
           bind_err (ks_norm_test est res_ba) (\<lambda>k1.
             Inr (ks_lines ''Forward: gaussian quality'' k0 @
                  ks_lines ''Reverse: gaussian quality'' k1)))
      else Inr [])"

text \<open>
  The analysis proper (lines 424-565), with the work values \<open>res_ab\<close> and \<open>res_ba\<close>
  already read and the unit factor chosen. \<open>--integ_only\<close> ends the run before it
  (\<open>sys.exit(0)\<close>). The calls happen in the script's order (Crooks, the two
  Kolmogorov-Smirnov tests, BAR, Jarz), and the first one that raises ends the run.
  The result of a run that ends normally is what it wrote: the lines of the report,
  the pickled objects and the call of the plot.
\<close>

definition analysis ::
  "estimators \<Rightarrow> args \<Rightarrow> real \<Rightarrow> string \<Rightarrow> real list \<Rightarrow> real list \<Rightarrow> py_error + run_output"
  where
  "analysis est a unit_fact u res_ab res_ba =
     (if integ_only a then Inl (SystemExit ''0'') else
     bind_err (run_if (''cgi'' \<in> set (methods a))
                 (Crooks est res_ab res_ba (nboots a) (nblocks a))) (\<lambda>cgi.
     bind_err (ks_section est (do_ks_test a) res_ab res_ba) (\<lambda>ks.
     bind_err (run_if (''bar'' \<in> set (methods a))
                 (BAR est res_ab res_ba (temperature a) (nboots a) (nblocks a))) (\<lambda>b.
     bind_err (run_if (''jarz'' \<in> set (methods a))
                 (Jarz est res_ab res_ba (temperature a) (nboots a) (nblocks a))) (\<lambda>j.
     Inr \<lparr>report =
            header_lines res_ab res_ba (temperature a) @
            opt_list cgi (\<lambda>c. cgi_lines c unit_fact u (nboots a) (nblocks a)) @
            ks @
            opt_list b (\<lambda>c. bar_lines c unit_fact u (nboots a) (nblocks a)) @
            opt_list j (\<lambda>c. jarz_lines c unit_fact u (nboots a) (nblocks a)),
          pickles =
            (if pickle a
             then opt_list cgi (\<lambda>c. [CgiPickle c]) @ opt_list b (\<lambda>c. [BarPickle c]) @
                  opt_list j (\<lambda>c. [JarzPickle c])
             else []),
          plot =
            (case cgi of
               None \<Rightarrow> None
             | Some c \<Rightarrow>
                 (case cgi_plot a of
                    None \<Rightarrow> None
                  | Some fn \<Rightarrow>
                      Some \<lparr>plot_file = fn, plot_wf = res_ab, plot_wr = res_ba,
                            plot_dg = crooks.dg c, plot_err = err_boot1 c,
                            plot_nbins = nbins a, plot_dpi = dpi a\<rparr>))\<rparr>)))))"

text \<open>
  \<open>main\<close> from the selection of the units on (the reading of the input files, lines
  348-422, is the work of \<open>pmx.analysis\<close> and \<open>pmx.parser\<close>).
\<close>

definition main ::
  "estimators \<Rightarrow> args \<Rightarrow> real list \<Rightarrow> real list \<Rightarrow> py_error + run_output" where
  "main est a res_ab res_ba =
     bind_err (select_units (units a) (temperature a))
       (\<lambda>(unit_fact, u). analysis est a unit_fact u res_ab res_ba)"

subsection \<open>Views of the report\<close>

text \<open>The estimator names \<open>main\<close> tests for.\<close>

definition recognized :: "string list" where
  "recognized = [''cgi'', ''bar'', ''jarz'']"

text \<open>The message of a line.\<close>

definition line_label :: "line \<Rightarrow> string" where
  "line_label l =
     (case l of
        Text m \<Rightarrow> m
      | Count m n \<Rightarrow> m
      | Number m x \<Rightarrow> m
      | Energy m x u \<Rightarrow> m
      | Gauss m x s u \<Rightarrow> m
      | KSFailed x y \<Rightarrow> ''---> KS-Test Failed'')"

text \<open>
  The messages under which the report gives an error of the kind \<open>bootstrap\<close> (the
  nonparametric bootstrap over \<open>nboots\<close> resamples) and of the kind \<open>block\<close>.
\<close>

definition bootstrap_labels :: "string list" where
  "bootstrap_labels =
     [''CGI: Std Err (bootstrap)'', ''BAR: Std Err (bootstrap)'',
      ''BAR: Conv Std Err (bootstrap)'', ''JARZ: Std Err Forward (bootstrap)'',
      ''JARZ: Std Err Reverse (bootstrap)'']"

definition block_labels :: "string list" where
  "block_labels =
     [''CGI: Std Err (blocks)'', ''BAR: Std Err (blocks)'',
      ''JARZ: Std Err Forward (blocks)'', ''JARZ: Std Err Reverse (blocks)'']"

text \<open>
  A line with its energies multiplied by \<open>f\<close> and given in the unit \<open>u\<close>; a line
  without an energy is left as it is.
\<close>

definition scale_line :: "real \<Rightarrow> string \<Rightarrow> line \<Rightarrow> line" where
  "scale_line f u l =
     (case l of
        Energy m x v \<Rightarrow> Energy m (x * f) u
      | Gauss m x s v \<Rightarrow> Gauss m (x * f) (s * f) u
      | _ \<Rightarrow> l)"

subsection \<open>Sample collaborators and options\<close>

text \<open>
  Estimators that return fixed objects, and the default options of \<open>parse_options\<close>
  (\<open>-m\<close> all three methods, \<open>-t 298.15\<close>, \<open>-b 0\<close>, \<open>-n 1\<close>, \<open>--units kJ\<close>), to run \<open>main\<close> on.
\<close>

definition sample_crooks :: crooks where
  "sample_crooks = \<lparr>mf = 2, devf = 1, mr = 4, devr = 1, inters_bool = True, dg = 3,
                    err_boot1 = 1/2, err_boot2 = 1/4, err_blocks = 1/8\<rparr>"

definition sample_bar :: bar where
  "sample_bar = \<lparr>dg = 3, err = 1/2, err_boot = 1/4, err_blocks = 1/8, conv = 1/2,
                 conv_err_boot = 1/10\<rparr>"

definition sample_jarz :: jarz where
  "sample_jarz = \<lparr>dg_for = 2, dg_rev = 4, dg_mean = 3, err_boot_for = 1/4,
                  err_boot_rev = 1/4, err_blocks_for = 1/8, err_blocks_rev = 1/8\<rparr>"

definition sample_estimators :: estimators where
  "sample_estimators =
     \<lparr>Crooks = (\<lambda>wf wr nboots nblocks. Inr sample_crooks),
      BAR = (\<lambda>wf wr T nboots nblocks. Inr sample_bar),
      Jarz = (\<lambda>wf wr T nboots nblocks. Inr sample_jarz),
      ks_norm_test = (\<lambda>w. Inr (1, 0, 1, True))\<rparr>"

definition default_args :: args where
  "default_args =
     \<lparr>methods = [''cgi'', ''bar'', ''jarz''], temperature = 298.15, nboots = 0,
      nblocks = 1, units = ''kJ'', integ_only = False, pickle = False,
      do_ks_test = True, cgi_plot = None, nbins = 10, dpi = 300\<rparr>"

section \<open>The estimators of \<open>pmx.estimators\<close>, from the specification\<close>

text \<open>
  The module \<open>pmx.estimators\<close> (the classes \<open>Crooks\<close>, \<open>BAR\<close>, \<open>Jarz\<close> and their
  resampling) is not among the sources. The definitions of this section follow the
  words of the specification (sections 3, 4.1, 4.3, 4.5 and 7); work values are
  \<open>real\<close>, counts are \<open>nat\<close>.
\<close>

text \<open>Modelled from the spec: the error taxonomy of section 7 (no source file declares it).\<close>

datatype condition =
    InsufficientData
  | DegenerateVariance
  | NonConvergence
  | InvalidSelection

subsection \<open>Resampling Engine: block partition (section 4.1)\<close>

text \<open>
  Modelled from the spec: the sizes of \<open>nblocks\<close> contiguous, equal-as-possible groups
  of \<open>n\<close> values (\<open>block_partition\<close> is missing from the sources). The remainder is
  handled explicitly: the first \<open>n mod nblocks\<close> groups hold one value more.
\<close>

definition block_sizes :: "nat \<Rightarrow> nat \<Rightarrow> nat list" where
  "block_sizes n k = map (\<lambda>i. n div k + (if i < n mod k then 1 else 0)) [0..<k]"

text \<open>
  Modelled from the spec: cutting a sequence into contiguous runs of the given sizes,
  in the original order (part of the missing \<open>block_partition\<close>).
\<close>

fun chop :: "nat list \<Rightarrow> 'a list \<Rightarrow> 'a list list" where
  "chop [] xs = []"
| "chop (n # ns) xs = take n xs # chop ns (drop n xs)"

text \<open>
  Modelled from the spec: \<open>block_partition(distribution, nblocks)\<close> of section 4.1,
  missing from the sources: it "splits a WorkDistribution, preserving original order,
  into nblocks contiguous, equal-as-possible groups" and "fails with an
  InsufficientData condition if nblocks > len(distribution)".
\<close>

definition block_partition :: "real list \<Rightarrow> nat \<Rightarrow> condition + real list list" where
  "block_partition distribution k =
     (if k > length distribution then Inl InsufficientData
      else Inr (chop (block_sizes (length distribution) k) distribution))"

text \<open>Modelled from the spec: the arithmetic mean of a distribution (section 4.3).\<close>

definition mean :: "real list \<Rightarrow> real" where
  "mean xs = sum_list xs / real (length xs)"

text \<open>
  Modelled from the spec: the sample standard deviation (sections 4.1 and 4.3), with
  the condition of section 7, InsufficientData when "fewer than 2 samples exist where
  a variance is required" (the function is missing from the sources).
\<close>

definition sample_std :: "real list \<Rightarrow> condition + real" where
  "sample_std xs =
     (if length xs < 2 then Inl InsufficientData
      else Inr (sqrt (sum_list (map (\<lambda>x. (x - mean xs)\<^sup>2) xs) / real (length xs - 1))))"

text \<open>Modelled from the spec: applying a point estimate to every block, the first failure wins.\<close>

fun estimate_each :: "('a \<Rightarrow> condition + real) \<Rightarrow> 'a list \<Rightarrow> condition + real list" where
  "estimate_each point [] = Inr []"
| "estimate_each point (b # bs) =
     bind_err (point b) (\<lambda>e. bind_err (estimate_each point bs) (\<lambda>es. Inr (e # es)))"

text \<open>
  Modelled from the spec: the \<open>block\<close> error of section 4.1 for an estimate of one
  distribution (a branch of Jarzynski), missing from the sources: "the estimator's
  point-estimate function is reapplied to each resample/block, and the error is the
  sample standard deviation of the resulting per-sample estimates".
\<close>

definition block_error ::
  "(real list \<Rightarrow> condition + real) \<Rightarrow> real list \<Rightarrow> nat \<Rightarrow> condition + real" where
  "block_error point distribution k =
     bind_err (block_partition distribution k) (\<lambda>blocks.
     bind_err (estimate_each point blocks) sample_std)"

text \<open>
  Modelled from the spec: the \<open>block\<close> error of section 4.1 for an estimate of a
  forward and a reverse distribution (CGI, BAR), missing from the sources: the
  \<open>i\<close>-th forward block goes with the \<open>i\<close>-th reverse block.
\<close>

definition block_error_pair ::
  "(real list \<Rightarrow> real list \<Rightarrow> condition + real) \<Rightarrow> real list \<Rightarrow> real list \<Rightarrow> nat \<Rightarrow>
   condition + real" where
  "block_error_pair point Wf Wr k =
     bind_err (block_partition Wf k) (\<lambda>bf.
     bind_err (block_partition Wr k) (\<lambda>br.
     bind_err (estimate_each (\<lambda>(f, r). point f r) (zip bf br)) sample_std))"

subsection \<open>Crooks Gaussian Intersection: the point estimate (section 4.3)\<close>

text \<open>
  Modelled from the spec: the coefficients of the quadratic of section 4.3,
  \<open>a = 1/\<sigma>\<^sub>r\<^sup>2 - 1/\<sigma>\<^sub>f\<^sup>2\<close>, \<open>b = 2(\<mu>\<^sub>f/\<sigma>\<^sub>f\<^sup>2 - \<mu>\<^sub>r/\<sigma>\<^sub>r\<^sup>2)\<close>,
  \<open>c = \<mu>\<^sub>r\<^sup>2/\<sigma>\<^sub>r\<^sup>2 - \<mu>\<^sub>f\<^sup>2/\<sigma>\<^sub>f\<^sup>2 - 2 ln(\<sigma>\<^sub>f/\<sigma>\<^sub>r)\<close> (the class \<open>Crooks\<close> is missing from the sources).
\<close>

definition cgi_a :: "real \<Rightarrow> real \<Rightarrow> real" where
  "cgi_a sigf sigr = 1 / sigr\<^sup>2 - 1 / sigf\<^sup>2"

text \<open>Modelled from the spec: the coefficient \<open>b\<close> of the quadratic of section 4.3.\<close>

definition cgi_b :: "real \<Rightarrow> real \<Rightarrow> real \<Rightarrow> real \<Rightarrow> real" where
  "cgi_b muf sigf mur sigr = 2 * (muf / sigf\<^sup>2 - mur / sigr\<^sup>2)"

text \<open>Modelled from the spec: the coefficient \<open>c\<close> of the quadratic of section 4.3.\<close>

definition cgi_c :: "real \<Rightarrow> real \<Rightarrow> real \<Rightarrow> real \<Rightarrow> real" where
  "cgi_c muf sigf mur sigr = mur\<^sup>2 / sigr\<^sup>2 - muf\<^sup>2 / sigf\<^sup>2 - 2 * ln (sigf / sigr)"

text \<open>
  Modelled from the spec: "\<open>\<sigma>\<^sub>f \<approx> \<sigma>\<^sub>r\<close> (within a small relative tolerance)" of
  section 4.3; the tolerance \<open>rtol\<close> is a parameter, the spec gives no value.
\<close>

definition near :: "real \<Rightarrow> real \<Rightarrow> real \<Rightarrow> bool" where
  "near rtol sigf sigr \<longleftrightarrow> \<bar>sigf - sigr\<bar> \<le> rtol * max \<bar>sigf\<bar> \<bar>sigr\<bar>"

text \<open>
  Modelled from the spec: the valid range of a root, "lying between \<open>\<mu>\<^sub>f\<close> and
  \<open>\<mu>\<^sub>r\<close>" whichever of the two is smaller; the ends count, since section 8 wants
  \<open>dG = \<mu>\<^sub>f\<close> with \<open>intersects = True\<close> for \<open>\<mu>\<^sub>f = \<mu>\<^sub>r\<close>.
\<close>

definition between :: "real \<Rightarrow> real \<Rightarrow> real \<Rightarrow> bool" where
  "between muf mur x \<longleftrightarrow> min muf mur \<le> x \<and> x \<le> max muf mur"

text \<open>
  Modelled from the spec: the condition DegenerateVariance of section 7, "a
  distribution has zero or near-zero variance". The spec gives no bound for
  "near-zero", so the model has the exact case; a standard deviation is never
  negative, and a parameter that is negative is no standard deviation either.
\<close>

definition degenerate :: "real \<Rightarrow> real \<Rightarrow> bool" where
  "degenerate sigf sigr \<longleftrightarrow> sigf \<le> 0 \<or> sigr \<le> 0"

text \<open>
  Modelled from the spec: the Gaussian-intersection equation of section 4.3, the
  quadratic \<open>a x\<^sup>2 + b x + c = 0\<close>, or "the resulting linear equation" \<open>b x + c = 0\<close>
  when \<open>\<sigma>\<^sub>f \<approx> \<sigma>\<^sub>r\<close>. With a zero standard deviation the coefficients are not
  defined and the intersection formula is short-circuited (section 7): nothing is a
  root, "unless both \<open>\<sigma>\<close> are exactly zero and \<open>\<mu>\<^sub>f = \<mu>\<^sub>r\<close>", when the two
  distributions are the one point \<open>\<mu>\<^sub>f\<close>.
\<close>

definition cgi_equation :: "real \<Rightarrow> real \<Rightarrow> real \<Rightarrow> real \<Rightarrow> real \<Rightarrow> real \<Rightarrow> bool" where
  "cgi_equation rtol muf sigf mur sigr x \<longleftrightarrow>
     (if degenerate sigf sigr then sigf = 0 \<and> sigr = 0 \<and> muf = mur \<and> x = muf
      else if near rtol sigf sigr
      then cgi_b muf sigf mur sigr * x + cgi_c muf sigf mur sigr = 0
      else cgi_a sigf sigr * x\<^sup>2 + cgi_b muf sigf mur sigr * x + cgi_c muf sigf mur sigr = 0)"

text \<open>
  Modelled from the spec: the roots the estimator computes (section 4.3, missing from
  the sources). A zero standard deviation is "not a hard failure" (section 7): no
  root is computed and the estimate falls back to the midpoint, which is also what
  the linear equation of equal standard deviations gives; only when both are zero
  and \<open>\<mu>\<^sub>f = \<mu>\<^sub>r\<close> the root is \<open>\<mu>\<^sub>f\<close> ("\<open>dG = \<mu>\<^sub>f\<close> trivially"). Otherwise the
  quadratic has its two roots when the discriminant is not negative, and the linear
  equation has the root \<open>-c/b\<close>; when \<open>b = 0\<close> and \<open>c = 0\<close> every \<open>x\<close> solves it and
  \<open>\<mu>\<^sub>f\<close> is taken (section 8: identical distributions give \<open>dG = \<mu>\<^sub>f\<close>).
\<close>

definition cgi_roots :: "real \<Rightarrow> real \<Rightarrow> real \<Rightarrow> real \<Rightarrow> real \<Rightarrow> real list" where
  "cgi_roots rtol muf sigf mur sigr =
     (let a = cgi_a sigf sigr; b = cgi_b muf sigf mur sigr; c = cgi_c muf sigf mur sigr in
      if degenerate sigf sigr then
        (if sigf = 0 \<and> sigr = 0 \<and> muf = mur then [muf] else [])
      else if near rtol sigf sigr then
        (if b = 0 then (if c = 0 then [muf] else []) else [- c / b])
      else
        (let d = b\<^sup>2 - 4 * a * c in
         if d < 0 then []
         else [(- b + sqrt d) / (2 * a), (- b - sqrt d) / (2 * a)]))"

text \<open>
  Modelled from the spec: the part of the EstimatorResult of section 3 that the point
  estimate of CGI fills: \<open>dG\<close>, the Gaussian-fit parameters and "whether the two
  Gaussians actually intersect".
\<close>

record cgi_result =
  dG :: real
  intersects :: bool
  mu_f :: real
  sigma_f :: real
  mu_r :: real
  sigma_r :: real

text \<open>
  Modelled from the spec: the choice of the root (section 4.3, missing from the
  sources): "select the root lying between \<open>\<mu>\<^sub>f\<close> and \<open>\<mu>\<^sub>r\<close>"; "if no root falls in
  the valid range ... set a diagnostic flag intersects = False and fall back to
  \<open>dG = (\<mu>\<^sub>f + \<mu>\<^sub>r) / 2\<close>".
\<close>

definition cgi_intersection :: "real \<Rightarrow> real \<Rightarrow> real \<Rightarrow> real \<Rightarrow> real \<Rightarrow> cgi_result" where
  "cgi_intersection rtol muf sigf mur sigr =
     (case filter (between muf mur) (cgi_roots rtol muf sigf mur sigr) of
        [] \<Rightarrow> \<lparr>dG = (muf + mur) / 2, intersects = False,
               mu_f = muf, sigma_f = sigf, mu_r = mur, sigma_r = sigr\<rparr>
      | x # _ \<Rightarrow> \<lparr>dG = x, intersects = True,
                  mu_f = muf, sigma_f = sigf, mu_r = mur, sigma_r = sigr\<rparr>)"

text \<open>
  Modelled from the spec: the point estimate of the CGI estimator on a pair of
  distributions (section 4.3, the class \<open>Crooks\<close> is missing from the sources):
  "compute mean/standard deviation of the forward distribution and of the reverse
  distribution", then intersect the two Gaussians.
\<close>

definition cgi_estimate :: "real \<Rightarrow> real list \<Rightarrow> real list \<Rightarrow> condition + cgi_result" where
  "cgi_estimate rtol Wf Wr =
     bind_err (sample_std Wf) (\<lambda>sigf.
     bind_err (sample_std Wr) (\<lambda>sigr.
       Inr (cgi_intersection rtol (mean Wf) sigf (mean Wr) sigr)))"

subsection \<open>Jarzynski: the point estimate (section 4.5)\<close>

text \<open>
  Modelled from the spec: the exponential average of section 4.5,
  \<open>-(1/\<beta>) ln(mean\<^sub>i exp(-\<beta> W\<^sub>i))\<close> (the class \<open>Jarz\<close> is missing from the sources).
\<close>

definition exp_average :: "real \<Rightarrow> real list \<Rightarrow> real" where
  "exp_average \<beta> w = - (1 / \<beta>) * ln (mean (map (\<lambda>x. exp (- \<beta> * x)) w))"

text \<open>
  Modelled from the spec: the point estimates of the Jarzynski estimator (section 3:
  the EstimatorResult; section 4.5).
\<close>

record jarz_result =
  dG_forward :: real
  dG_reverse :: real
  dG_mean :: real

text \<open>
  Modelled from the spec: the Jarzynski estimator of section 4.5 (the class \<open>Jarz\<close> is
  missing from the sources), with \<open>\<beta> = 1/(k\<^sub>B T)\<close> of section 3 and the condition
  InsufficientData of section 7 for an empty distribution:
  \<open>dG_mean = (dG_forward + dG_reverse) / 2\<close>.
\<close>

definition jarz_estimate :: "real \<Rightarrow> real list \<Rightarrow> real list \<Rightarrow> condition + jarz_result" where
  "jarz_estimate T Wf Wr =
     (if Wf = [] \<or> Wr = [] then Inl InsufficientData
      else
        (let \<beta> = 1 / (kb * T);
             f = exp_average \<beta> Wf;
             r = exp_average \<beta> Wr
         in Inr \<lparr>dG_forward = f, dG_reverse = r, dG_mean = (f + r) / 2\<rparr>))"

section \<open>Properties of the analysis script\<close>

subsection \<open>Evaluating the model\<close>

lemmas run_defs = main_def analysis_def select_units_def lower_def lower_char_def bind_err_def
  run_if_def opt_list_def ks_section_def header_lines_def cgi_lines_def bar_lines_def
  jarz_lines_def ks_lines_def

lemmas sample_defs = sample_estimators_def default_args_def sample_crooks_def sample_bar_def
  sample_jarz_def

text \<open>The run with the default options and the sample estimators.\<close>

lemma default_run:
  "main sample_estimators default_args [1, 2] [3, 4] =
   Inr \<lparr>report =
          [Text ''ANALYSIS'',
           Count ''Number of forward (0->1) trajectories:'' 2,
           Count ''Number of reverse (1->0) trajectories:'' 2,
           Number ''Temperature (K) :'' 298.15,
           Text ''Crooks Gaussian Intersection'',
           Gauss ''CGI: Forward Gauss'' 2 1 ''kJ/mol'',
           Gauss ''CGI: Reverse Gauss'' 4 1 ''kJ/mol'',
           Energy ''CGI: dG'' 3 ''kJ/mol'',
           Energy ''CGI: Std Err (bootstrap:parametric)'' (1/2) ''kJ/mol'',
           Number ''Forward: gaussian quality'' 1, Text ''---> KS-Test Ok'',
           Number ''Reverse: gaussian quality'' 1, Text ''---> KS-Test Ok'',
           Text ''Bennett Acceptance Ratio'',
           Energy ''BAR: dG'' 3 ''kJ/mol'',
           Energy ''BAR: Std Err (analytical)'' (1/2) ''kJ/mol'',
           Number ''BAR: Conv'' (1/2),
           Text ''Jarzynski estimator'',
           Energy ''JARZ: dG Forward'' 2 ''kJ/mol'',
           Energy ''JARZ: dG Reverse'' 4 ''kJ/mol'',
           Energy ''JARZ: dG Mean'' 3 ''kJ/mol''],
        pickles = [], plot = None\<rparr>"
  by (simp add: run_defs sample_defs)

subsection \<open>The selection of files by index\<close>

lemma getitem_in_range:
  "0 \<le> i \<Longrightarrow> i < int (length xs) \<Longrightarrow> getitem xs i = Inr (xs ! nat i)"
  by (simp add: getitem_def)

lemma select_files_nonneg:
  "\<forall>i \<in> set idx. 0 \<le> i \<Longrightarrow>
   select_files files idx =
     Inr (map (\<lambda>i. files ! nat i) (filter (\<lambda>i. i < int (length files)) idx))"
  by (induction idx) (simp_all add: getitem_in_range bind_err_def)

lemma length_select_le:
  "select_files files idx = Inr sel \<Longrightarrow> length sel \<le> length idx"
  by (induction idx arbitrary: sel) (auto simp: bind_err_def split: if_splits sum.splits)

lemma select_files_distinct_length:
  assumes "\<forall>i \<in> set idx. 0 \<le> i" "distinct idx" "select_files files idx = Inr sel"
  shows "length sel \<le> length files"
proof -
  let ?ok = "filter (\<lambda>i. i < int (length files)) idx"
  have sel: "sel = map (\<lambda>i. files ! nat i) ?ok"
    using assms(1,3) by (simp add: select_files_nonneg)
  have "distinct ?ok" using assms(2) by simp
  moreover have "set ?ok \<subseteq> int ` {..<length files}"
  proof
    fix i assume "i \<in> set ?ok"
    then have "0 \<le> i" "i < int (length files)" using assms(1) by auto
    then have "i = int (nat i)" "nat i < length files" by auto
    then show "i \<in> int ` {..<length files}" by blast
  qed
  ultimately have "length ?ok \<le> card (int ` {..<length files})"
    by (metis distinct_card card_mono finite_imageI finite_lessThan)
  also have "\<dots> \<le> length files"
    by (metis card_image_le card_lessThan finite_lessThan)
  finally show ?thesis by (simp add: sel)
qed

lemma distinct_dropped_warns:
  assumes "\<forall>i \<in> set idx. 0 \<le> i" "distinct idx" "select_files files idx = Inr sel"
    and "\<exists>i \<in> set idx. int (length files) \<le> i"
  shows "index_warning sel idx"
proof -
  have "length sel \<le> length files" using assms(1-3) by (rule select_files_distinct_length)
  then show ?thesis using assms(4) by (force simp: index_warning_def list_ex_iff)
qed

text \<open>
  For indices that are not negative the selection never raises: it is the files at the
  positions below the number of files, in the order of the indices.
\<close>

lemma select_by_index_nonneg:
  assumes "\<forall>i \<in> set idx. 0 \<le> i"
  shows "\<exists>w. select_by_index fAB fBA (Some idx) =
           Inr \<lparr>filesAB = map (\<lambda>i. fAB ! nat i) (filter (\<lambda>i. i < int (length fAB)) idx),
                filesBA = map (\<lambda>i. fBA ! nat i) (filter (\<lambda>i. i < int (length fBA)) idx),
                warnings = w\<rparr>"
  by (simp add: select_by_index_def select_files_nonneg [OF assms] bind_err_def)

text \<open>
  The warning is tested against the length of the selection. With one file and the
  indices \<open>0 0 1\<close> the selection has two entries, no index exceeds \<open>1\<close>, and the
  index \<open>1\<close> is dropped without a warning (claim C10). With three files and the index
  \<open>2\<close> nothing is dropped and both warnings are given.
\<close>

theorem index_dropped_without_warning:
  "select_by_index [''dgdl0.xvg''] [''dgdl0.xvg''] (Some [0, 0, 1]) =
   Inr \<lparr>filesAB = [''dgdl0.xvg'', ''dgdl0.xvg''],
        filesBA = [''dgdl0.xvg'', ''dgdl0.xvg''], warnings = []\<rparr>"
  by (simp add: select_by_index_def bind_err_def getitem_def index_warning_def)

lemma warning_without_dropped_index:
  "select_by_index [''a0'', ''a1'', ''a2''] [''b0'', ''b1'', ''b2''] (Some [2]) =
   Inr \<lparr>filesAB = [''a2''], filesBA = [''b2''], warnings = [Forward, Reverse]\<rparr>"
  by (simp add: select_by_index_def bind_err_def getitem_def index_warning_def)

subsection \<open>The structure of a run that ends normally\<close>

lemma main_Inr:
  assumes "main est a res_ab res_ba = Inr out"
  obtains unit_fact u cgi ks b j where
    "select_units (units a) (temperature a) = Inr (unit_fact, u)"
    "\<not> integ_only a"
    "run_if (''cgi'' \<in> set (methods a)) (Crooks est res_ab res_ba (nboots a) (nblocks a)) = Inr cgi"
    "ks_section est (do_ks_test a) res_ab res_ba = Inr ks"
    "run_if (''bar'' \<in> set (methods a)) (BAR est res_ab res_ba (temperature a) (nboots a) (nblocks a)) = Inr b"
    "run_if (''jarz'' \<in> set (methods a)) (Jarz est res_ab res_ba (temperature a) (nboots a) (nblocks a)) = Inr j"
    "report out =
       header_lines res_ab res_ba (temperature a) @
       opt_list cgi (\<lambda>c. cgi_lines c unit_fact u (nboots a) (nblocks a)) @
       ks @
       opt_list b (\<lambda>c. bar_lines c unit_fact u (nboots a) (nblocks a)) @
       opt_list j (\<lambda>c. jarz_lines c unit_fact u (nboots a) (nblocks a))"
    "pickles out =
       (if pickle a
        then opt_list cgi (\<lambda>c. [CgiPickle c]) @ opt_list b (\<lambda>c. [BarPickle c]) @
             opt_list j (\<lambda>c. [JarzPickle c])
        else [])"
    "plot out =
       (case cgi of
          None \<Rightarrow> None
        | Some c \<Rightarrow>
            (case cgi_plot a of
               None \<Rightarrow> None
             | Some fn \<Rightarrow>
                 Some \<lparr>plot_file = fn, plot_wf = res_ab, plot_wr = res_ba,
                       plot_dg = crooks.dg c, plot_err = err_boot1 c,
                       plot_nbins = nbins a, plot_dpi = dpi a\<rparr>))"
  using assms unfolding main_def analysis_def bind_err_def
  by (auto split: sum.splits prod.splits if_splits)

lemma run_if_Some:
  "run_if True r = Inr x \<Longrightarrow> \<exists>obj. r = Inr obj \<and> x = Some obj"
  by (auto simp: run_if_def bind_err_def split: sum.splits)

subsection \<open>The choice of the estimators\<close>

text \<open>
  Claim C1, as the script has it: a name that is none of \<open>cgi\<close>, \<open>bar\<close>, \<open>jarz\<close> is
  ignored. The run with the names \<open>ms\<close> is the run with the recognized names among
  \<open>ms\<close>: the same estimators are called, the same lines written, the same failure
  raised if an estimator raises. The script has no check of the names (the option
  \<open>-m\<close> has no \<open>choices\<close>), and no condition for an invalid selection.
\<close>

theorem main_ignores_unrecognized:
  "main est (a\<lparr>methods := ms\<rparr>) res_ab res_ba =
   main est (a\<lparr>methods := filter (\<lambda>m. m \<in> set recognized) ms\<rparr>) res_ab res_ba"
  by (simp add: main_def analysis_def recognized_def cong: if_cong option.case_cong)

theorem main_ignores_unrecognized_witness:
  "main sample_estimators (default_args\<lparr>methods := [''cgi'', ''mbar'']\<rparr>) [1, 2] [3, 4] =
   main sample_estimators (default_args\<lparr>methods := [''cgi'']\<rparr>) [1, 2] [3, 4]"
  using main_ignores_unrecognized [where est = sample_estimators and a = default_args
      and ms = "[''cgi'', ''mbar'']" and res_ab = "[1, 2]" and res_ba = "[3, 4]"]
  by (simp add: recognized_def)

text \<open>
  The claim C1 as the specification states it fails: with the names \<open>cgi\<close> and \<open>mbar\<close>
  the run ends normally, the report has the lines of CGI and of the normality test,
  and nothing tells of the name \<open>mbar\<close>.
\<close>

theorem unrecognized_method_no_failure:
  "main sample_estimators (default_args\<lparr>methods := [''cgi'', ''mbar'']\<rparr>) [1, 2] [3, 4] =
   Inr \<lparr>report =
          [Text ''ANALYSIS'',
           Count ''Number of forward (0->1) trajectories:'' 2,
           Count ''Number of reverse (1->0) trajectories:'' 2,
           Number ''Temperature (K) :'' 298.15,
           Text ''Crooks Gaussian Intersection'',
           Gauss ''CGI: Forward Gauss'' 2 1 ''kJ/mol'',
           Gauss ''CGI: Reverse Gauss'' 4 1 ''kJ/mol'',
           Energy ''CGI: dG'' 3 ''kJ/mol'',
           Energy ''CGI: Std Err (bootstrap:parametric)'' (1/2) ''kJ/mol'',
           Number ''Forward: gaussian quality'' 1, Text ''---> KS-Test Ok'',
           Number ''Reverse: gaussian quality'' 1, Text ''---> KS-Test Ok''],
        pickles = [], plot = None\<rparr>"
  by (simp add: run_defs sample_defs)

subsection \<open>The errors of the kinds \<open>bootstrap\<close> and \<open>block\<close>\<close>

lemma header_labels:
  "l \<in> set (header_lines res_ab res_ba T) \<Longrightarrow>
   line_label l \<notin> set bootstrap_labels \<and> line_label l \<notin> set block_labels"
  by (auto simp: header_lines_def line_label_def bootstrap_labels_def block_labels_def)

lemma ks_labels:
  "ks_section est do_ks res_ab res_ba = Inr ks \<Longrightarrow> l \<in> set ks \<Longrightarrow>
   line_label l \<notin> set bootstrap_labels \<and> line_label l \<notin> set block_labels"
  by (auto simp: ks_section_def ks_lines_def bind_err_def line_label_def bootstrap_labels_def
      block_labels_def split: if_splits sum.splits prod.splits)

lemma cgi_no_bootstrap:
  "boots \<le> 0 \<Longrightarrow> l \<in> set (cgi_lines c f u boots blocks) \<Longrightarrow>
   line_label l \<notin> set bootstrap_labels"
  by (auto simp: cgi_lines_def line_label_def bootstrap_labels_def split: if_splits)

lemma bar_no_bootstrap:
  "boots \<le> 0 \<Longrightarrow> l \<in> set (bar_lines c f u boots blocks) \<Longrightarrow>
   line_label l \<notin> set bootstrap_labels"
  by (auto simp: bar_lines_def line_label_def bootstrap_labels_def split: if_splits)

lemma jarz_no_bootstrap:
  "boots \<le> 0 \<Longrightarrow> l \<in> set (jarz_lines c f u boots blocks) \<Longrightarrow>
   line_label l \<notin> set bootstrap_labels"
  by (auto simp: jarz_lines_def line_label_def bootstrap_labels_def split: if_splits)

lemma cgi_no_block:
  "blocks \<le> 1 \<Longrightarrow> l \<in> set (cgi_lines c f u boots blocks) \<Longrightarrow>
   line_label l \<notin> set block_labels"
  by (auto simp: cgi_lines_def line_label_def block_labels_def split: if_splits)

lemma bar_no_block:
  "blocks \<le> 1 \<Longrightarrow> l \<in> set (bar_lines c f u boots blocks) \<Longrightarrow>
   line_label l \<notin> set block_labels"
  by (auto simp: bar_lines_def line_label_def block_labels_def split: if_splits)

lemma jarz_no_block:
  "blocks \<le> 1 \<Longrightarrow> l \<in> set (jarz_lines c f u boots blocks) \<Longrightarrow>
   line_label l \<notin> set block_labels"
  by (auto simp: jarz_lines_def line_label_def block_labels_def split: if_splits)

lemma report_no_bootstrap:
  assumes "main est a res_ab res_ba = Inr out" and "nboots a \<le> 0" and "l \<in> set (report out)"
  shows "line_label l \<notin> set bootstrap_labels"
proof -
  from assms(1) obtain unit_fact u cgi ks b j where
    ks: "ks_section est (do_ks_test a) res_ab res_ba = Inr ks" and
    rep: "report out =
       header_lines res_ab res_ba (temperature a) @
       opt_list cgi (\<lambda>c. cgi_lines c unit_fact u (nboots a) (nblocks a)) @
       ks @
       opt_list b (\<lambda>c. bar_lines c unit_fact u (nboots a) (nblocks a)) @
       opt_list j (\<lambda>c. jarz_lines c unit_fact u (nboots a) (nblocks a))"
    by (rule main_Inr)
  from assms(3) consider
      "l \<in> set (header_lines res_ab res_ba (temperature a))"
    | "l \<in> set (opt_list cgi (\<lambda>c. cgi_lines c unit_fact u (nboots a) (nblocks a)))"
    | "l \<in> set ks"
    | "l \<in> set (opt_list b (\<lambda>c. bar_lines c unit_fact u (nboots a) (nblocks a)))"
    | "l \<in> set (opt_list j (\<lambda>c. jarz_lines c unit_fact u (nboots a) (nblocks a)))"
    unfolding rep by auto
  then show ?thesis
  proof cases
    case 1 then show ?thesis by (simp add: header_labels)
  next
    case 2 then show ?thesis
      using assms(2) by (auto simp: opt_list_def dest: cgi_no_bootstrap split: option.splits)
  next
    case 3 then show ?thesis using ks by (simp add: ks_labels)
  next
    case 4 then show ?thesis
      using assms(2) by (auto simp: opt_list_def dest: bar_no_bootstrap split: option.splits)
  next
    case 5 then show ?thesis
      using assms(2) by (auto simp: opt_list_def dest: jarz_no_bootstrap split: option.splits)
  qed
qed

lemma report_no_block:
  assumes "main est a res_ab res_ba = Inr out" and "nblocks a \<le> 1" and "l \<in> set (report out)"
  shows "line_label l \<notin> set block_labels"
proof -
  from assms(1) obtain unit_fact u cgi ks b j where
    ks: "ks_section est (do_ks_test a) res_ab res_ba = Inr ks" and
    rep: "report out =
       header_lines res_ab res_ba (temperature a) @
       opt_list cgi (\<lambda>c. cgi_lines c unit_fact u (nboots a) (nblocks a)) @
       ks @
       opt_list b (\<lambda>c. bar_lines c unit_fact u (nboots a) (nblocks a)) @
       opt_list j (\<lambda>c. jarz_lines c unit_fact u (nboots a) (nblocks a))"
    by (rule main_Inr)
  from assms(3) consider
      "l \<in> set (header_lines res_ab res_ba (temperature a))"
    | "l \<in> set (opt_list cgi (\<lambda>c. cgi_lines c unit_fact u (nboots a) (nblocks a)))"
    | "l \<in> set ks"
    | "l \<in> set (opt_list b (\<lambda>c. bar_lines c unit_fact u (nboots a) (nblocks a)))"
    | "l \<in> set (opt_list j (\<lambda>c. jarz_lines c unit_fact u (nboots a) (nblocks a)))"
    unfolding rep by auto
  then show ?thesis
  proof cases
    case 1 then show ?thesis by (simp add: header_labels)
  next
    case 2 then show ?thesis
      using assms(2) by (auto simp: opt_list_def dest: cgi_no_block split: option.splits)
  next
    case 3 then show ?thesis using ks by (simp add: ks_labels)
  next
    case 4 then show ?thesis
      using assms(2) by (auto simp: opt_list_def dest: bar_no_block split: option.splits)
  next
    case 5 then show ?thesis
      using assms(2) by (auto simp: opt_list_def dest: jarz_no_block split: option.splits)
  qed
qed

text \<open>
  Claim C4: in the report of a run with \<open>nboots = 0\<close> no line gives an error of the
  kind \<open>bootstrap\<close>, for any estimator: the line is absent, not written with the value
  \<open>0\<close>; and in the report of a run with \<open>nblocks = 1\<close> no line gives an error of the
  kind \<open>block\<close>.
\<close>

theorem no_bootstrap_no_block_error:
  assumes "main est a res_ab res_ba = Inr out"
  shows "(nboots a = 0 \<longrightarrow> (\<forall>l \<in> set (report out). line_label l \<notin> set bootstrap_labels)) \<and>
         (nblocks a = 1 \<longrightarrow> (\<forall>l \<in> set (report out). line_label l \<notin> set block_labels))"
  using report_no_bootstrap [OF assms] report_no_block [OF assms] by simp

theorem no_bootstrap_no_block_error_witness:
  "\<exists>out. main sample_estimators default_args [1, 2] [3, 4] = Inr out \<and>
         nboots default_args = 0 \<and> nblocks default_args = 1 \<and>
         (\<forall>l \<in> set (report out). line_label l \<notin> set bootstrap_labels) \<and>
         (\<forall>l \<in> set (report out). line_label l \<notin> set block_labels)"
  using no_bootstrap_no_block_error [OF default_run]
  by (simp add: default_run) (simp add: default_args_def)

text \<open>The lines are written when the errors are asked for.\<close>

lemma cgi_bootstrap_reported:
  assumes "main est a res_ab res_ba = Inr out" and "''cgi'' \<in> set (methods a)"
    and "0 < nboots a"
  shows "''CGI: Std Err (bootstrap)'' \<in> line_label ` set (report out)"
proof -
  from assms(1) obtain unit_fact u cgi ks b j where
    c: "run_if (''cgi'' \<in> set (methods a)) (Crooks est res_ab res_ba (nboots a) (nblocks a)) = Inr cgi" and
    rep: "report out =
       header_lines res_ab res_ba (temperature a) @
       opt_list cgi (\<lambda>c. cgi_lines c unit_fact u (nboots a) (nblocks a)) @
       ks @
       opt_list b (\<lambda>c. bar_lines c unit_fact u (nboots a) (nblocks a)) @
       opt_list j (\<lambda>c. jarz_lines c unit_fact u (nboots a) (nblocks a))"
    by (rule main_Inr)
  from c assms(2) obtain obj where obj: "cgi = Some obj"
    using run_if_Some by fastforce
  have "Energy ''CGI: Std Err (bootstrap)'' (err_boot2 obj * unit_fact) u
          \<in> set (cgi_lines obj unit_fact u (nboots a) (nblocks a))"
    using assms(3) by (simp add: cgi_lines_def)
  then have "Energy ''CGI: Std Err (bootstrap)'' (err_boot2 obj * unit_fact) u \<in> set (report out)"
    unfolding rep by (simp add: obj opt_list_def)
  then have "line_label (Energy ''CGI: Std Err (bootstrap)'' (err_boot2 obj * unit_fact) u)
          \<in> line_label ` set (report out)"
    by (rule imageI)
  then show ?thesis by (simp add: line_label_def)
qed

lemma bar_blocks_reported:
  assumes "main est a res_ab res_ba = Inr out" and "''bar'' \<in> set (methods a)"
    and "1 < nblocks a"
  shows "''BAR: Std Err (blocks)'' \<in> line_label ` set (report out)"
proof -
  from assms(1) obtain unit_fact u cgi ks b j where
    c: "run_if (''bar'' \<in> set (methods a)) (BAR est res_ab res_ba (temperature a) (nboots a) (nblocks a)) = Inr b" and
    rep: "report out =
       header_lines res_ab res_ba (temperature a) @
       opt_list cgi (\<lambda>c. cgi_lines c unit_fact u (nboots a) (nblocks a)) @
       ks @
       opt_list b (\<lambda>c. bar_lines c unit_fact u (nboots a) (nblocks a)) @
       opt_list j (\<lambda>c. jarz_lines c unit_fact u (nboots a) (nblocks a))"
    by (rule main_Inr)
  from c assms(2) obtain obj where obj: "b = Some obj"
    using run_if_Some by fastforce
  have "Energy ''BAR: Std Err (blocks)'' (bar.err_blocks obj * unit_fact) u
          \<in> set (bar_lines obj unit_fact u (nboots a) (nblocks a))"
    using assms(3) by (simp add: bar_lines_def)
  then have "Energy ''BAR: Std Err (blocks)'' (bar.err_blocks obj * unit_fact) u \<in> set (report out)"
    unfolding rep by (simp add: obj opt_list_def)
  then have "line_label (Energy ''BAR: Std Err (blocks)'' (bar.err_blocks obj * unit_fact) u)
          \<in> line_label ` set (report out)"
    by (rule imageI)
  then show ?thesis by (simp add: line_label_def)
qed

subsection \<open>The parametric bootstrap error of CGI\<close>

text \<open>
  In a run that ends normally with CGI among the methods, \<open>Crooks\<close> has returned an
  object and the report gives its \<open>err_boot1\<close>.
\<close>

lemma cgi_parametric_line:
  assumes "main est a res_ab res_ba = Inr out" and "''cgi'' \<in> set (methods a)"
  shows "\<exists>cgi unit_fact u.
           Crooks est res_ab res_ba (nboots a) (nblocks a) = Inr cgi \<and>
           select_units (units a) (temperature a) = Inr (unit_fact, u) \<and>
           Energy ''CGI: Std Err (bootstrap:parametric)'' (err_boot1 cgi * unit_fact) u
             \<in> set (report out)"
proof -
  from assms(1) obtain unit_fact u cgi ks b j where
    un: "select_units (units a) (temperature a) = Inr (unit_fact, u)" and
    c: "run_if (''cgi'' \<in> set (methods a)) (Crooks est res_ab res_ba (nboots a) (nblocks a)) = Inr cgi" and
    rep: "report out =
       header_lines res_ab res_ba (temperature a) @
       opt_list cgi (\<lambda>c. cgi_lines c unit_fact u (nboots a) (nblocks a)) @
       ks @
       opt_list b (\<lambda>c. bar_lines c unit_fact u (nboots a) (nblocks a)) @
       opt_list j (\<lambda>c. jarz_lines c unit_fact u (nboots a) (nblocks a))"
    by (rule main_Inr)
  from c assms(2) obtain obj where
    obj: "Crooks est res_ab res_ba (nboots a) (nblocks a) = Inr obj" "cgi = Some obj"
    using run_if_Some by fastforce
  have "Energy ''CGI: Std Err (bootstrap:parametric)'' (err_boot1 obj * unit_fact) u
          \<in> set (cgi_lines obj unit_fact u (nboots a) (nblocks a))"
    by (simp add: cgi_lines_def)
  then have "Energy ''CGI: Std Err (bootstrap:parametric)'' (err_boot1 obj * unit_fact) u
          \<in> set (report out)"
    unfolding rep by (simp add: obj(2) opt_list_def)
  with obj(1) un show ?thesis by blast
qed





subsection \<open>The units of the output\<close>

lemma scale_cgi_lines:
  "map (scale_line f u) (cgi_lines c 1 v boots blocks) = cgi_lines c f u boots blocks"
  by (simp add: cgi_lines_def scale_line_def)

lemma scale_bar_lines:
  "map (scale_line f u) (bar_lines c 1 v boots blocks) = bar_lines c f u boots blocks"
  by (simp add: bar_lines_def scale_line_def)

lemma scale_jarz_lines:
  "map (scale_line f u) (jarz_lines c 1 v boots blocks) = jarz_lines c f u boots blocks"
  by (simp add: jarz_lines_def scale_line_def)

lemma scale_header_lines:
  "map (scale_line f u) (header_lines res_ab res_ba T) = header_lines res_ab res_ba T"
  by (simp add: header_lines_def scale_line_def)

lemma scale_ks_lines:
  "map (scale_line f u) (ks_lines m k) = ks_lines m k"
  by (simp add: ks_lines_def scale_line_def split: prod.splits)

lemma scale_ks_section:
  "ks_section est do_ks res_ab res_ba = Inr ks \<Longrightarrow> map (scale_line f u) ks = ks"
  by (auto simp: ks_section_def bind_err_def scale_ks_lines split: if_splits sum.splits)

lemma scale_opt_list:
  "map g (opt_list x h) = opt_list x (\<lambda>c. map g (h c))"
  by (simp add: opt_list_def split: option.splits)

lemma analysis_scaled:
  assumes "analysis est a f u res_ab res_ba = Inr out"
  shows "\<exists>out0. analysis est a 1 v res_ab res_ba = Inr out0 \<and>
           report out = map (scale_line f u) (report out0) \<and>
           pickles out = pickles out0 \<and> plot out = plot out0"
proof -
  from assms have ni: "\<not> integ_only a"
    by (auto simp: analysis_def split: if_splits)
  from assms ni obtain cgi ks b j where
    c: "run_if (''cgi'' \<in> set (methods a)) (Crooks est res_ab res_ba (nboots a) (nblocks a)) = Inr cgi" and
    k: "ks_section est (do_ks_test a) res_ab res_ba = Inr ks" and
    b: "run_if (''bar'' \<in> set (methods a)) (BAR est res_ab res_ba (temperature a) (nboots a) (nblocks a)) = Inr b" and
    j: "run_if (''jarz'' \<in> set (methods a)) (Jarz est res_ab res_ba (temperature a) (nboots a) (nblocks a)) = Inr j"
    unfolding analysis_def bind_err_def by (auto split: sum.splits)
  have out: "out = \<lparr>report =
            header_lines res_ab res_ba (temperature a) @
            opt_list cgi (\<lambda>c. cgi_lines c f u (nboots a) (nblocks a)) @
            ks @
            opt_list b (\<lambda>c. bar_lines c f u (nboots a) (nblocks a)) @
            opt_list j (\<lambda>c. jarz_lines c f u (nboots a) (nblocks a)),
          pickles =
            (if pickle a
             then opt_list cgi (\<lambda>c. [CgiPickle c]) @ opt_list b (\<lambda>c. [BarPickle c]) @
                  opt_list j (\<lambda>c. [JarzPickle c])
             else []),
          plot =
            (case cgi of
               None \<Rightarrow> None
             | Some c \<Rightarrow>
                 (case cgi_plot a of
                    None \<Rightarrow> None
                  | Some fn \<Rightarrow>
                      Some \<lparr>plot_file = fn, plot_wf = res_ab, plot_wr = res_ba,
                            plot_dg = crooks.dg c, plot_err = err_boot1 c,
                            plot_nbins = nbins a, plot_dpi = dpi a\<rparr>))\<rparr>"
    using assms ni c k b j unfolding analysis_def bind_err_def by simp
  let ?out0 = "\<lparr>report =
            header_lines res_ab res_ba (temperature a) @
            opt_list cgi (\<lambda>c. cgi_lines c 1 v (nboots a) (nblocks a)) @
            ks @
            opt_list b (\<lambda>c. bar_lines c 1 v (nboots a) (nblocks a)) @
            opt_list j (\<lambda>c. jarz_lines c 1 v (nboots a) (nblocks a)),
          pickles = pickles out, plot = plot out\<rparr>"
  have "analysis est a 1 v res_ab res_ba = Inr ?out0"
    using ni c k b j unfolding analysis_def bind_err_def by (simp add: out)
  moreover have "report out = map (scale_line f u) (report ?out0)"
    by (simp add: out scale_opt_list scale_header_lines scale_cgi_lines scale_bar_lines
        scale_jarz_lines scale_ks_section [OF k])
  ultimately show ?thesis by auto
qed

lemma select_units_factor:
  "select_units us T = Inr (f, u) \<Longrightarrow>
   f = (if lower us = ''kj'' then 1 else if us = ''kcal'' then 1 / 4.184 else 1 / (kb * T))"
  by (auto simp: select_units_def split: if_splits)

lemma select_units_kj: "select_units ''kj'' T = Inr (1, ''kJ/mol'')"
  by (simp add: select_units_def lower_def lower_char_def)

lemma Number_scale_line: "scale_line f u l = Number m x \<longleftrightarrow> l = Number m x"
  by (cases l) (simp_all add: scale_line_def)

lemma Number_in_scaled:
  "Number m x \<in> set (map (scale_line f u) ls) \<longleftrightarrow> Number m x \<in> set ls"
proof
  assume "Number m x \<in> set (map (scale_line f u) ls)"
  then obtain l where "l \<in> set ls" "scale_line f u l = Number m x" by auto
  then show "Number m x \<in> set ls" by (simp add: Number_scale_line)
next
  assume "Number m x \<in> set ls"
  then have "scale_line f u (Number m x) \<in> set (map (scale_line f u) ls)" by simp
  then show "Number m x \<in> set (map (scale_line f u) ls)" by (simp add: scale_line_def)
qed

lemma bar_conv_reported:
  assumes "main est a res_ab res_ba = Inr out" and "''bar'' \<in> set (methods a)"
  shows "\<exists>b. BAR est res_ab res_ba (temperature a) (nboots a) (nblocks a) = Inr b \<and>
             Number ''BAR: Conv'' (conv b) \<in> set (report out) \<and>
             (0 < nboots a \<longrightarrow>
                Number ''BAR: Conv Std Err (bootstrap)'' (conv_err_boot b) \<in> set (report out))"
proof -
  from assms(1) obtain unit_fact u cgi ks b j where
    c: "run_if (''bar'' \<in> set (methods a)) (BAR est res_ab res_ba (temperature a) (nboots a) (nblocks a)) = Inr b" and
    rep: "report out =
       header_lines res_ab res_ba (temperature a) @
       opt_list cgi (\<lambda>c. cgi_lines c unit_fact u (nboots a) (nblocks a)) @
       ks @
       opt_list b (\<lambda>c. bar_lines c unit_fact u (nboots a) (nblocks a)) @
       opt_list j (\<lambda>c. jarz_lines c unit_fact u (nboots a) (nblocks a))"
    by (rule main_Inr)
  from c assms(2) obtain obj where
    obj: "BAR est res_ab res_ba (temperature a) (nboots a) (nblocks a) = Inr obj" "b = Some obj"
    using run_if_Some by fastforce
  have "Number ''BAR: Conv'' (conv obj) \<in> set (bar_lines obj unit_fact u (nboots a) (nblocks a))"
    by (simp add: bar_lines_def)
  moreover have "0 < nboots a \<longrightarrow> Number ''BAR: Conv Std Err (bootstrap)'' (conv_err_boot obj)
      \<in> set (bar_lines obj unit_fact u (nboots a) (nblocks a))"
    by (simp add: bar_lines_def)
  ultimately have
    "Number ''BAR: Conv'' (conv obj) \<in> set (report out) \<and>
     (0 < nboots a \<longrightarrow>
        Number ''BAR: Conv Std Err (bootstrap)'' (conv_err_boot obj) \<in> set (report out))"
    unfolding rep by (simp add: obj(2) opt_list_def)
  with obj(1) show ?thesis by blast
qed

text \<open>
  Claim C9, as the script has it. The unit factor is \<open>1\<close> for kJ, \<open>1/4.184\<close> for kcal
  and \<open>1/(kb T)\<close> for kT. The report of a run is the report of the same run in kJ with
  every energy (the \<open>dG\<close> values, the means and standard deviations of the Gaussians,
  the standard errors) multiplied by the unit factor and every other line unchanged:
  the lines without a unit, among them \<open>Conv\<close> of BAR and its bootstrap error, are the
  same for all units. The pickled objects and the values handed to the plot are the
  same for all units as well: they are not multiplied by the unit factor.
\<close>

theorem units_scale_report_only:
  assumes "main est a res_ab res_ba = Inr out"
  shows "\<exists>unit_fact u out0.
           select_units (units a) (temperature a) = Inr (unit_fact, u) \<and>
           unit_fact = (if lower (units a) = ''kj'' then 1
                        else if units a = ''kcal'' then 1 / 4.184
                        else 1 / (kb * temperature a)) \<and>
           main est (a\<lparr>units := ''kj''\<rparr>) res_ab res_ba = Inr out0 \<and>
           report out = map (scale_line unit_fact u) (report out0) \<and>
           (\<forall>m x. Number m x \<in> set (report out) \<longleftrightarrow> Number m x \<in> set (report out0)) \<and>
           (''bar'' \<in> set (methods a) \<longrightarrow>
              (\<exists>b. BAR est res_ab res_ba (temperature a) (nboots a) (nblocks a) = Inr b \<and>
                   Number ''BAR: Conv'' (conv b) \<in> set (report out) \<and>
                   (0 < nboots a \<longrightarrow>
                      Number ''BAR: Conv Std Err (bootstrap)'' (conv_err_boot b)
                        \<in> set (report out)))) \<and>
           pickles out = pickles out0 \<and> plot out = plot out0"
proof -
  from assms obtain unit_fact u where
    un: "select_units (units a) (temperature a) = Inr (unit_fact, u)" and
    an: "analysis est a unit_fact u res_ab res_ba = Inr out"
    unfolding main_def bind_err_def by (auto split: sum.splits)
  from analysis_scaled [OF an, of "''kJ/mol''"] obtain out0 where
    a0: "analysis est a 1 ''kJ/mol'' res_ab res_ba = Inr out0" and
    rep: "report out = map (scale_line unit_fact u) (report out0)" and
    rest: "pickles out = pickles out0" "plot out = plot out0"
    by blast
  have "analysis est (a\<lparr>units := ''kj''\<rparr>) 1 ''kJ/mol'' res_ab res_ba =
        analysis est a 1 ''kJ/mol'' res_ab res_ba"
    by (simp add: analysis_def cong: if_cong option.case_cong)
  then have m0: "main est (a\<lparr>units := ''kj''\<rparr>) res_ab res_ba = Inr out0"
    by (simp add: main_def select_units_kj bind_err_def a0)
  have num: "\<forall>m x. Number m x \<in> set (report out) \<longleftrightarrow> Number m x \<in> set (report out0)"
    unfolding rep by (simp only: Number_in_scaled) simp
  have cv: "''bar'' \<in> set (methods a) \<longrightarrow>
              (\<exists>b. BAR est res_ab res_ba (temperature a) (nboots a) (nblocks a) = Inr b \<and>
                   Number ''BAR: Conv'' (conv b) \<in> set (report out) \<and>
                   (0 < nboots a \<longrightarrow>
                      Number ''BAR: Conv Std Err (bootstrap)'' (conv_err_boot b)
                        \<in> set (report out)))"
    using bar_conv_reported [OF assms] by blast
  from un select_units_factor [OF un] m0 rep num cv rest show ?thesis by blast
qed

theorem units_scale_report_only_witness:
  "\<exists>out unit_fact u out0.
     main sample_estimators (default_args\<lparr>units := ''kcal''\<rparr>) [1, 2] [3, 4] = Inr out \<and>
     select_units ''kcal'' 298.15 = Inr (unit_fact, u) \<and>
     unit_fact = 1 / 4.184 \<and>
     main sample_estimators (default_args\<lparr>units := ''kj''\<rparr>) [1, 2] [3, 4] = Inr out0 \<and>
     report out = map (scale_line unit_fact u) (report out0) \<and>
     Number ''BAR: Conv'' (1 / 2) \<in> set (report out) \<and>
     pickles out = pickles out0 \<and> plot out = plot out0"
proof -
  obtain out where
    m: "main sample_estimators (default_args\<lparr>units := ''kcal''\<rparr>) [1, 2] [3, 4] = Inr out"
    by (simp add: run_defs sample_defs)
  from units_scale_report_only [OF m] obtain unit_fact u out0 where
    "select_units (units (default_args\<lparr>units := ''kcal''\<rparr>))
        (temperature (default_args\<lparr>units := ''kcal''\<rparr>)) = Inr (unit_fact, u)"
    "unit_fact = (if lower (units (default_args\<lparr>units := ''kcal''\<rparr>)) = ''kj'' then 1
                  else if units (default_args\<lparr>units := ''kcal''\<rparr>) = ''kcal'' then 1 / 4.184
                  else 1 / (kb * temperature (default_args\<lparr>units := ''kcal''\<rparr>)))"
    "main sample_estimators (default_args\<lparr>units := ''kcal'', units := ''kj''\<rparr>) [1, 2] [3, 4]
       = Inr out0"
    "report out = map (scale_line unit_fact u) (report out0)"
    "''bar'' \<in> set (methods (default_args\<lparr>units := ''kcal''\<rparr>)) \<longrightarrow>
       (\<exists>b. BAR sample_estimators [1, 2] [3, 4] (temperature (default_args\<lparr>units := ''kcal''\<rparr>))
              (nboots (default_args\<lparr>units := ''kcal''\<rparr>))
              (nblocks (default_args\<lparr>units := ''kcal''\<rparr>)) = Inr b \<and>
            Number ''BAR: Conv'' (conv b) \<in> set (report out) \<and>
            (0 < nboots (default_args\<lparr>units := ''kcal''\<rparr>) \<longrightarrow>
               Number ''BAR: Conv Std Err (bootstrap)'' (conv_err_boot b) \<in> set (report out)))"
    "pickles out = pickles out0" "plot out = plot out0"
    by blast
  then have
    "select_units ''kcal'' 298.15 = Inr (unit_fact, u)"
    "unit_fact = 1 / 4.184"
    "main sample_estimators (default_args\<lparr>units := ''kj''\<rparr>) [1, 2] [3, 4] = Inr out0"
    "report out = map (scale_line unit_fact u) (report out0)"
    "Number ''BAR: Conv'' (1 / 2) \<in> set (report out)"
    "pickles out = pickles out0" "plot out = plot out0"
    by (simp_all add: default_args_def sample_estimators_def sample_bar_def lower_def
        lower_char_def)
  with m show ?thesis by blast
qed

text \<open>
  The claim C9 as stated fails for the pickled results and the plot: with
  \<open>--units kcal --pickle --cgi_plot cgi.png\<close> the report gives \<open>dG = 3/4.184\<close> kcal/mol
  while the pickled object and the plot get \<open>dG = 3\<close>, the value in the unit of the
  input. The script says so itself when it pickles ("units of results in pickled
  files are as in the provided dgdl.xvg or integ.dat files").
\<close>

theorem pickle_and_plot_not_scaled:
  "main sample_estimators
     (default_args\<lparr>methods := [''cgi''], units := ''kcal'', pickle := True,
                   do_ks_test := False, cgi_plot := Some ''cgi.png''\<rparr>) [1, 2] [3, 4] =
   Inr \<lparr>report =
          [Text ''ANALYSIS'',
           Count ''Number of forward (0->1) trajectories:'' 2,
           Count ''Number of reverse (1->0) trajectories:'' 2,
           Number ''Temperature (K) :'' 298.15,
           Text ''Crooks Gaussian Intersection'',
           Gauss ''CGI: Forward Gauss'' (2 / 4.184) (1 / 4.184) ''kcal/mol'',
           Gauss ''CGI: Reverse Gauss'' (4 / 4.184) (1 / 4.184) ''kcal/mol'',
           Energy ''CGI: dG'' (3 / 4.184) ''kcal/mol'',
           Energy ''CGI: Std Err (bootstrap:parametric)'' (1 / 2 / 4.184) ''kcal/mol''],
        pickles =
          [CgiPickle \<lparr>mf = 2, devf = 1, mr = 4, devr = 1, inters_bool = True, dg = 3,
                      err_boot1 = 1/2, err_boot2 = 1/4, err_blocks = 1/8\<rparr>],
        plot = Some \<lparr>plot_file = ''cgi.png'', plot_wf = [1, 2], plot_wr = [3, 4],
                     plot_dg = 3, plot_err = 1/2, plot_nbins = 10, plot_dpi = 300\<rparr>\<rparr>"
  by (simp add: run_defs sample_defs)

section \<open>Properties of the estimators of the specification\<close>

subsection \<open>Block partition\<close>

lemma length_chop: "length (chop ns xs) = length ns"
  by (induction ns arbitrary: xs) simp_all

lemma concat_chop: "concat (chop ns xs) = take (sum_list ns) xs"
proof (induction ns arbitrary: xs)
  case Nil
  show ?case by simp
next
  case (Cons n ns)
  have "take n xs @ take (sum_list ns) (drop n xs) = take (n + sum_list ns) xs"
    by (simp add: take_add)
  with Cons show ?case by simp
qed

lemma lengths_chop:
  "sum_list ns \<le> length xs \<Longrightarrow> map length (chop ns xs) = ns"
  by (induction ns arbitrary: xs) auto

lemma length_block_sizes: "length (block_sizes n k) = k"
  by (simp add: block_sizes_def)

lemma sum_block_sizes:
  assumes "0 < k"
  shows "sum_list (block_sizes n k) = n"
proof -
  have "sum_list (block_sizes n k) = (\<Sum>i = 0..<k. n div k + (if i < n mod k then 1 else 0))"
    by (simp add: block_sizes_def interv_sum_list_conv_sum_set_nat)
  also have "\<dots> = k * (n div k) + (\<Sum>i = 0..<k. if i < n mod k then 1 else 0)"
    by (simp add: sum.distrib)
  also have "(\<Sum>i = 0..<k. if i < n mod k then 1 else 0) = card ({0..<k} \<inter> {i. i < n mod k})"
    by (simp add: sum.If_cases)
  also have "{0..<k} \<inter> {i. i < n mod k} = {0..<n mod k}"
    using assms by (auto intro: less_trans [OF _ mod_less_divisor])
  finally show ?thesis by simp
qed

lemma block_sizes_range:
  "s \<in> set (block_sizes n k) \<Longrightarrow> s = n div k \<or> s = n div k + 1"
  by (auto simp: block_sizes_def)

lemma block_partition_Inr:
  assumes "block_partition d k = Inr bs" and "0 < k"
  shows "length bs = k" and "concat bs = d"
    and "\<forall>b \<in> set bs. length b = length d div k \<or> length b = length d div k + 1"
    and "\<forall>b \<in> set bs. b \<noteq> []"
proof -
  from assms(1) have le: "k \<le> length d" and
    bs: "bs = chop (block_sizes (length d) k) d"
    by (auto simp: block_partition_def split: if_splits)
  show "length bs = k" by (simp add: bs length_chop length_block_sizes)
  show "concat bs = d" by (simp add: bs concat_chop sum_block_sizes [OF assms(2)])
  have lens: "map length bs = block_sizes (length d) k"
    by (simp add: bs lengths_chop sum_block_sizes [OF assms(2)])
  show sz: "\<forall>b \<in> set bs. length b = length d div k \<or> length b = length d div k + 1"
  proof
    fix b assume "b \<in> set bs"
    then have "length b \<in> set (map length bs)" by simp
    then show "length b = length d div k \<or> length b = length d div k + 1"
      unfolding lens by (rule block_sizes_range)
  qed
  have "0 < length d div k" using le assms(2) by (simp add: div_greater_zero_iff)
  with sz show "\<forall>b \<in> set bs. b \<noteq> []" by fastforce
qed

lemma block_partition_example:
  "block_partition [1, 2, 3, 4, 5, 6, 7] 3 = Inr [[1, 2, 3], [4, 5], [6, 7]]"
  by (simp add: block_partition_def block_sizes_def upt_rec)

text \<open>
  Claim C8: a partition into more blocks than the distribution has values fails with
  InsufficientData, and so does the block error of every point estimate, of one
  distribution or of a forward and a reverse distribution, whichever of the two is
  too short. (For \<open>0 < nblocks \<le> len\<close> the partition has \<open>nblocks\<close> non-empty contiguous
  groups whose sizes differ by at most one: \<open>block_partition_Inr\<close>.)
\<close>

theorem block_partition_insufficient:
  assumes "length distribution < k"
  shows "block_partition distribution k = Inl InsufficientData \<and>
         block_error point distribution k = Inl InsufficientData \<and>
         block_error_pair point2 distribution Wr k = Inl InsufficientData \<and>
         block_error_pair point2 Wf distribution k = Inl InsufficientData"
proof -
  have p: "block_partition distribution k = Inl InsufficientData"
    using assms by (simp add: block_partition_def)
  have "block_partition Wf k = Inl InsufficientData \<or> (\<exists>bf. block_partition Wf k = Inr bf)"
    by (simp add: block_partition_def)
  then have "block_error_pair point2 Wf distribution k = Inl InsufficientData"
    by (auto simp: block_error_pair_def bind_err_def p)
  then show ?thesis
    by (simp add: p block_error_def block_error_pair_def bind_err_def)
qed

theorem block_partition_insufficient_witness:
  "block_partition [1, 2, 3] 4 = Inl InsufficientData \<and>
   block_error (\<lambda>b. Inr (mean b)) [1, 2, 3] 4 = Inl InsufficientData \<and>
   block_error_pair (\<lambda>f r. Inr (mean f - mean r)) [1, 2, 3] [1, 2, 3, 4, 5] 4
     = Inl InsufficientData \<and>
   block_error_pair (\<lambda>f r. Inr (mean f - mean r)) [1, 2, 3, 4, 5] [1, 2, 3] 4
     = Inl InsufficientData"
  using block_partition_insufficient [of "[1, 2, 3]" 4 "\<lambda>b. Inr (mean b)"
      "\<lambda>f r. Inr (mean f - mean r)" "[1, 2, 3, 4, 5]" "[1, 2, 3, 4, 5]"]
  by simp

subsection \<open>Jarzynski\<close>

lemma jarz_empty:
  "Wf = [] \<or> Wr = [] \<Longrightarrow> jarz_estimate T Wf Wr = Inl InsufficientData"
  by (auto simp: jarz_estimate_def)

text \<open>
  Claim C6: for non-empty distributions the Jarzynski estimator returns a result, its
  \<open>dG_mean\<close> is \<open>(dG_forward + dG_reverse) / 2\<close>, which lies between \<open>dG_forward\<close> and
  \<open>dG_reverse\<close> and equals them when they are equal.
\<close>

theorem jarz_mean_between:
  assumes "Wf \<noteq> []" and "Wr \<noteq> []"
  shows "\<exists>r. jarz_estimate T Wf Wr = Inr r \<and>
             dG_mean r = (dG_forward r + dG_reverse r) / 2 \<and>
             min (dG_forward r) (dG_reverse r) \<le> dG_mean r \<and>
             dG_mean r \<le> max (dG_forward r) (dG_reverse r) \<and>
             (dG_forward r = dG_reverse r \<longrightarrow> dG_mean r = dG_forward r)"
proof -
  let ?f = "exp_average (1 / (kb * T)) Wf" and ?r = "exp_average (1 / (kb * T)) Wr"
  have "jarz_estimate T Wf Wr = Inr \<lparr>dG_forward = ?f, dG_reverse = ?r, dG_mean = (?f + ?r) / 2\<rparr>"
    using assms by (simp add: jarz_estimate_def Let_def)
  moreover have "min ?f ?r \<le> (?f + ?r) / 2" "(?f + ?r) / 2 \<le> max ?f ?r"
    by (simp_all add: min_def max_def)
  ultimately show ?thesis by simp
qed

theorem jarz_mean_between_witness:
  "\<exists>r. jarz_estimate 298.15 [1, 2, 3, 4, 5] [1.2, 2.1, 3.3, 3.9, 5.1] = Inr r \<and>
       dG_mean r = (dG_forward r + dG_reverse r) / 2 \<and>
       min (dG_forward r) (dG_reverse r) \<le> dG_mean r \<and>
       dG_mean r \<le> max (dG_forward r) (dG_reverse r)"
  using jarz_mean_between [of "[1, 2, 3, 4, 5]" "[1.2, 2.1, 3.3, 3.9, 5.1]" "298.15"]
  by auto

subsection \<open>Crooks Gaussian Intersection\<close>

lemma cgi_intersection_params:
  "mu_f (cgi_intersection rtol muf sigf mur sigr) = muf"
  "sigma_f (cgi_intersection rtol muf sigf mur sigr) = sigf"
  "mu_r (cgi_intersection rtol muf sigf mur sigr) = mur"
  "sigma_r (cgi_intersection rtol muf sigf mur sigr) = sigr"
  by (simp_all add: cgi_intersection_def split: list.splits)

lemma cgi_intersection_no_root:
  assumes "\<forall>x \<in> set (cgi_roots rtol muf sigf mur sigr). \<not> between muf mur x"
  shows "intersects (cgi_intersection rtol muf sigf mur sigr) = False"
    and "dG (cgi_intersection rtol muf sigf mur sigr) = (muf + mur) / 2"
proof -
  from assms have "filter (between muf mur) (cgi_roots rtol muf sigf mur sigr) = []"
    by (simp add: filter_empty_conv)
  then show "intersects (cgi_intersection rtol muf sigf mur sigr) = False"
    and "dG (cgi_intersection rtol muf sigf mur sigr) = (muf + mur) / 2"
    by (simp_all add: cgi_intersection_def)
qed

lemma cgi_intersection_root:
  assumes "intersects (cgi_intersection rtol muf sigf mur sigr)"
  shows "dG (cgi_intersection rtol muf sigf mur sigr) \<in> set (cgi_roots rtol muf sigf mur sigr)"
    and "between muf mur (dG (cgi_intersection rtol muf sigf mur sigr))"
proof -
  from assms obtain x rest where
    f: "filter (between muf mur) (cgi_roots rtol muf sigf mur sigr) = x # rest"
    by (auto simp: cgi_intersection_def split: list.splits)
  then have dg: "dG (cgi_intersection rtol muf sigf mur sigr) = x"
    by (simp add: cgi_intersection_def)
  have "x \<in> set (filter (between muf mur) (cgi_roots rtol muf sigf mur sigr))"
    by (simp add: f)
  then show "dG (cgi_intersection rtol muf sigf mur sigr) \<in> set (cgi_roots rtol muf sigf mur sigr)"
    and "between muf mur (dG (cgi_intersection rtol muf sigf mur sigr))"
    by (simp_all add: dg)
qed

lemma cgi_estimate_Inr:
  assumes "cgi_estimate rtol Wf Wr = Inr r"
  obtains sigf sigr where
    "sample_std Wf = Inr sigf" "sample_std Wr = Inr sigr"
    "r = cgi_intersection rtol (mean Wf) sigf (mean Wr) sigr"
  using assms by (auto simp: cgi_estimate_def bind_err_def split: sum.splits)

text \<open>The roots are the solutions.\<close>

lemma square_eq_iff_sqrt:
  fixes y d :: real
  assumes "0 \<le> d"
  shows "y\<^sup>2 = d \<longleftrightarrow> y = sqrt d \<or> y = - sqrt d"
proof -
  have "y\<^sup>2 = d \<longleftrightarrow> y\<^sup>2 = (sqrt d)\<^sup>2" using assms by simp
  also have "\<dots> \<longleftrightarrow> y = sqrt d \<or> y = - sqrt d" by (rule power2_eq_iff)
  finally show ?thesis .
qed

lemma quadratic_solutions:
  fixes a b c x :: real
  assumes "a \<noteq> 0"
  shows "a * x\<^sup>2 + b * x + c = 0 \<longleftrightarrow>
         0 \<le> b\<^sup>2 - 4 * a * c \<and>
         (x = (- b + sqrt (b\<^sup>2 - 4 * a * c)) / (2 * a) \<or>
          x = (- b - sqrt (b\<^sup>2 - 4 * a * c)) / (2 * a))"
proof -
  let ?d = "b\<^sup>2 - 4 * a * c"
  have sq: "(2 * a * x + b)\<^sup>2 = 4 * a * (a * x\<^sup>2 + b * x + c) + ?d"
    by (simp add: power2_eq_square algebra_simps)
  have "a * x\<^sup>2 + b * x + c = 0 \<longleftrightarrow> (2 * a * x + b)\<^sup>2 = ?d"
    using assms by (simp add: sq)
  also have "\<dots> \<longleftrightarrow> 0 \<le> ?d \<and> (2 * a * x + b)\<^sup>2 = ?d"
    by (metis zero_le_power2)
  also have "\<dots> \<longleftrightarrow> 0 \<le> ?d \<and> (2 * a * x + b = sqrt ?d \<or> 2 * a * x + b = - sqrt ?d)"
    using square_eq_iff_sqrt by blast
  also have "\<dots> \<longleftrightarrow> 0 \<le> ?d \<and>
      (x = (- b + sqrt ?d) / (2 * a) \<or> x = (- b - sqrt ?d) / (2 * a))"
    using assms by (auto simp: field_simps)
  finally show ?thesis .
qed

lemma cgi_a_nonzero:
  assumes "0 \<le> rtol" and "\<not> degenerate sigf sigr" and "\<not> near rtol sigf sigr"
  shows "cgi_a sigf sigr \<noteq> 0"
proof
  from assms(2) have pos: "0 < sigf" "0 < sigr" by (simp_all add: degenerate_def)
  assume "cgi_a sigf sigr = 0"
  then have "sigf\<^sup>2 = sigr\<^sup>2"
    using pos by (simp add: cgi_a_def field_simps)
  then have "sigf = sigr"
    using pos by (simp add: power2_eq_iff_nonneg)
  then have "near rtol sigf sigr"
    using assms(1) pos by (simp add: near_def)
  with assms(3) show False by simp
qed

lemma cgi_roots_solve:
  assumes "0 \<le> rtol"
  shows "(\<exists>x. between muf mur x \<and> cgi_equation rtol muf sigf mur sigr x) \<longleftrightarrow>
         (\<exists>x \<in> set (cgi_roots rtol muf sigf mur sigr). between muf mur x)"
proof (cases "degenerate sigf sigr")
  case True
  then show ?thesis
    by (auto simp: cgi_equation_def cgi_roots_def Let_def)
next
  case nd: False
  show ?thesis
  proof (cases "near rtol sigf sigr")
    case True
    show ?thesis
    proof (cases "cgi_b muf sigf mur sigr = 0")
      case b0: True
      have "between muf mur muf" by (simp add: between_def)
      then show ?thesis
        using nd True b0 by (auto simp: cgi_equation_def cgi_roots_def Let_def)
    next
      case False
      then have "\<And>x. cgi_b muf sigf mur sigr * x + cgi_c muf sigf mur sigr = 0 \<longleftrightarrow>
          x = - cgi_c muf sigf mur sigr / cgi_b muf sigf mur sigr"
        by (auto simp: field_simps)
      then show ?thesis
        using nd True False by (simp add: cgi_equation_def cgi_roots_def Let_def)
    qed
  next
    case False
    from cgi_a_nonzero [OF assms nd False] have a: "cgi_a sigf sigr \<noteq> 0" .
    show ?thesis
      using nd False
      by (auto simp: cgi_equation_def cgi_roots_def Let_def quadratic_solutions [OF a])
  qed
qed

lemma cgi_roots_sound:
  assumes "0 \<le> rtol" and "x \<in> set (cgi_roots rtol muf sigf mur sigr)"
  shows "cgi_equation rtol muf sigf mur sigr x"
proof (cases "degenerate sigf sigr")
  case True
  with assms(2) show ?thesis
    by (auto simp: cgi_equation_def cgi_roots_def Let_def split: if_splits)
next
  case nd: False
  show ?thesis
  proof (cases "near rtol sigf sigr")
    case True
    with assms(2) nd show ?thesis
      by (auto simp: cgi_equation_def cgi_roots_def Let_def field_simps split: if_splits)
  next
    case False
    from cgi_a_nonzero [OF assms(1) nd False] have a: "cgi_a sigf sigr \<noteq> 0" .
    from assms(2) nd False show ?thesis
      by (auto simp: cgi_equation_def cgi_roots_def Let_def quadratic_solutions [OF a]
          split: if_splits)
  qed
qed

text \<open>Zero standard deviations: the estimate is the midpoint, or the common point.\<close>

lemma cgi_degenerate:
  assumes "degenerate sigf sigr" and "\<not> (sigf = 0 \<and> sigr = 0 \<and> muf = mur)"
  shows "intersects (cgi_intersection rtol muf sigf mur sigr) = False"
    and "dG (cgi_intersection rtol muf sigf mur sigr) = (muf + mur) / 2"
proof -
  from assms have "cgi_roots rtol muf sigf mur sigr = []"
    by (auto simp: cgi_roots_def Let_def)
  then show "intersects (cgi_intersection rtol muf sigf mur sigr) = False"
    and "dG (cgi_intersection rtol muf sigf mur sigr) = (muf + mur) / 2"
    by (simp_all add: cgi_intersection_def)
qed

lemma cgi_degenerate_same_point:
  "intersects (cgi_intersection rtol mu 0 mu 0) = True"
  "dG (cgi_intersection rtol mu 0 mu 0) = mu"
  by (simp_all add: cgi_intersection_def cgi_roots_def degenerate_def between_def)

lemma sample_std_constant:
  "sample_std [1, 1] = Inr 0" "sample_std [3, 3] = Inr 0" "mean [1, 1] = 1" "mean [3, 3] = 3"
  by (simp_all add: sample_std_def mean_def)

lemma cgi_two_spikes:
  "cgi_estimate (1 / 1000) [1, 1] [3, 3] =
   Inr \<lparr>dG = 2, intersects = False, mu_f = 1, sigma_f = 0, mu_r = 3, sigma_r = 0\<rparr>"
  by (simp add: cgi_estimate_def bind_err_def sample_std_constant cgi_intersection_def
      cgi_roots_def degenerate_def)

text \<open>Identical Gaussians intersect at their mean (section 8 of the specification).\<close>

lemma cgi_identical:
  assumes "0 \<le> rtol" and "0 < sig"
  shows "intersects (cgi_intersection rtol mu sig mu sig) = True"
    and "dG (cgi_intersection rtol mu sig mu sig) = mu"
proof -
  have n: "near rtol sig sig" "\<not> degenerate sig sig"
    using assms by (simp_all add: near_def degenerate_def)
  have "cgi_b mu sig mu sig = 0" "cgi_c mu sig mu sig = 0"
    using assms(2) by (simp_all add: cgi_b_def cgi_c_def)
  then have "cgi_roots rtol mu sig mu sig = [mu]"
    using n by (simp add: cgi_roots_def)
  then show "intersects (cgi_intersection rtol mu sig mu sig) = True"
    and "dG (cgi_intersection rtol mu sig mu sig) = mu"
    by (simp_all add: cgi_intersection_def between_def)
qed

lemma cgi_intersects_solution:
  assumes "cgi_estimate rtol Wf Wr = Inr r" and "0 \<le> rtol" and "intersects r"
  shows "between (mu_f r) (mu_r r) (dG r) \<and>
         cgi_equation rtol (mu_f r) (sigma_f r) (mu_r r) (sigma_r r) (dG r)"
proof -
  from assms(1) obtain sigf sigr where
    r: "r = cgi_intersection rtol (mean Wf) sigf (mean Wr) sigr"
    by (rule cgi_estimate_Inr)
  have p: "mu_f r = mean Wf" "sigma_f r = sigf" "mu_r r = mean Wr" "sigma_r r = sigr"
    by (simp_all add: r cgi_intersection_params)
  from assms(3) have i: "intersects (cgi_intersection rtol (mean Wf) sigf (mean Wr) sigr)"
    by (simp add: r)
  from cgi_intersection_root [OF i] have
    "dG r \<in> set (cgi_roots rtol (mean Wf) sigf (mean Wr) sigr)"
    "between (mean Wf) (mean Wr) (dG r)"
    by (simp_all add: r)
  then show ?thesis
    using cgi_roots_sound [OF assms(2)] by (simp add: p)
qed

text \<open>
  Claim C3: when no root of the Gaussian-intersection equation lies between the
  forward mean and the reverse mean, the CGI estimate has \<open>intersects = False\<close> and
  \<open>dG = (\<mu>\<^sub>f + \<mu>\<^sub>r) / 2\<close>, the means being those of the two distributions. The
  hypothesis is on the equation of the specification, for any tolerance that is not
  negative; two constant samples with different means are a case of it
  (\<open>cgi_two_spikes\<close>). Conversely an estimate with \<open>intersects = True\<close> is a root
  between the means (\<open>cgi_intersects_solution\<close>).
\<close>

theorem cgi_fallback_when_no_root:
  assumes "cgi_estimate rtol Wf Wr = Inr r" and "0 \<le> rtol"
    and "\<forall>x. between (mu_f r) (mu_r r) x \<longrightarrow>
           \<not> cgi_equation rtol (mu_f r) (sigma_f r) (mu_r r) (sigma_r r) x"
  shows "intersects r = False \<and> dG r = (mu_f r + mu_r r) / 2 \<and>
         mu_f r = mean Wf \<and> mu_r r = mean Wr"
proof -
  from assms(1) obtain sigf sigr where
    r: "r = cgi_intersection rtol (mean Wf) sigf (mean Wr) sigr"
    by (rule cgi_estimate_Inr)
  from cgi_roots_solve [OF assms(2)] assms(3)
  have "\<forall>x \<in> set (cgi_roots rtol (mu_f r) (sigma_f r) (mu_r r) (sigma_r r)).
          \<not> between (mu_f r) (mu_r r) x"
    by blast
  then have
    "\<forall>x \<in> set (cgi_roots rtol (mean Wf) sigf (mean Wr) sigr). \<not> between (mean Wf) (mean Wr) x"
    by (simp add: r cgi_intersection_params)
  from cgi_intersection_no_root [OF this] show ?thesis
    by (simp add: r cgi_intersection_params)
qed

lemma sample_std_3:
  "sample_std [-1, 0, 1] = Inr 1" "sample_std [-1, 1, 3] = Inr 2"
  "mean [-1, 0, 1] = 0" "mean [-1, 1, 3] = 1"
  by (simp_all add: sample_std_def mean_def)

lemma ln_half_bound: "ln (1 / 2 :: real) < - (1 / 2)"
proof -
  have "(exp (1 / 2 :: real))\<^sup>2 = exp 1"
    using exp_double [of "1 / 2 :: real"] by simp
  also have "\<dots> < (2::real)\<^sup>2" using exp_le by simp
  finally have "exp (1 / 2 :: real) < 2"
    by (rule power2_less_imp_less) simp
  then have "1 / 2 < ln (2::real)"
    by (metis exp_less_cancel_iff exp_ln zero_less_numeral)
  moreover have "ln (1 / 2 :: real) = - ln 2"
    by (simp add: ln_div)
  ultimately show ?thesis by simp
qed

theorem cgi_fallback_when_no_root_witness:
  "\<exists>r. cgi_estimate (1 / 1000) [-1, 0, 1] [-1, 1, 3] = Inr r \<and>
       intersects r = False \<and> dG r = 1 / 2 \<and> mu_f r = 0 \<and> mu_r r = 1"
proof -
  define r where "r = cgi_intersection (1 / 1000) 0 1 1 2"
  have e: "cgi_estimate (1 / 1000) [-1, 0, 1] [-1, 1, 3] = Inr r"
    by (simp add: cgi_estimate_def bind_err_def sample_std_3 r_def)
  have p: "mu_f r = 0" "sigma_f r = 1" "mu_r r = 1" "sigma_r r = 2"
    by (simp_all add: r_def cgi_intersection_params)
  have eq: "\<And>x. cgi_equation (1 / 1000) 0 1 1 2 x \<longleftrightarrow>
      - (3 / 4) * x\<^sup>2 - (1 / 2) * x + (1 / 4 - 2 * ln (1 / 2)) = 0"
    by (simp add: cgi_equation_def degenerate_def near_def cgi_a_def cgi_b_def cgi_c_def)
  have no: "\<forall>x. between (mu_f r) (mu_r r) x \<longrightarrow>
      \<not> cgi_equation (1 / 1000) (mu_f r) (sigma_f r) (mu_r r) (sigma_r r) x"
  proof (intro allI impI)
    fix x :: real
    assume "between (mu_f r) (mu_r r) x"
    then have x: "0 \<le> x" "x \<le> 1" by (simp_all add: p between_def)
    then have "x\<^sup>2 \<le> 1" by (simp add: power_le_one)
    with x ln_half_bound
    have "0 < - (3 / 4) * x\<^sup>2 - (1 / 2) * x + (1 / 4 - 2 * ln (1 / 2 :: real))"
      by simp
    then show "\<not> cgi_equation (1 / 1000) (mu_f r) (sigma_f r) (mu_r r) (sigma_r r) x"
      by (simp add: p eq)
  qed
  have "(0::real) \<le> 1 / 1000" by simp
  from cgi_fallback_when_no_root [OF e this no] e show ?thesis by (simp add: p)
qed

end
